theory Spec2Isabelle
  imports Complex_Main
begin

section \<open>Conversion profiles of \<open>mvc/converter.py\<close>\<close>

text \<open>
  The module is Python 2. Byte strings are \<open>string\<close> (a list of 8-bit characters),
  \<open>None\<close> is the \<open>None\<close> of an option type, a \<open>dict\<close> is a map, and an exception
  that leaves a function is a value of the result.
\<close>

subsection \<open>Characters\<close>

definition is_digit :: "char \<Rightarrow> bool" where
  \<comment> \<open>the class \<open>0-9\<close> (\<open>\d\<close> of a byte pattern)\<close>
  "is_digit c = (let n = (of_char c :: nat) in 48 \<le> n \<and> n \<le> 57)"

definition is_upper :: "char \<Rightarrow> bool" where
  "is_upper c = (let n = (of_char c :: nat) in 65 \<le> n \<and> n \<le> 90)"

definition is_lower :: "char \<Rightarrow> bool" where
  "is_lower c = (let n = (of_char c :: nat) in 97 \<le> n \<and> n \<le> 122)"

definition is_alnum :: "char \<Rightarrow> bool" where
  \<comment> \<open>the class \<open>a-zA-Z0-9\<close>\<close>
  "is_alnum c = (is_lower c \<or> is_upper c \<or> is_digit c)"

definition lower_char :: "char \<Rightarrow> char" where
  "lower_char c = (if is_upper c then char_of ((of_char c :: nat) + 32) else c)"

definition lower :: "string \<Rightarrow> string" where
  \<comment> \<open>\<open>str.lower()\<close>\<close>
  "lower s = map lower_char s"

definition startswith :: "string \<Rightarrow> string \<Rightarrow> bool" where
  \<comment> \<open>\<open>line.startswith(p)\<close>\<close>
  "startswith line p = (take (length p) line = p)"

subsection \<open>\<open>ConverterInfo\<close>\<close>

definition NON_WORD_CHARS_sub :: "string \<Rightarrow> string" where
  \<comment> \<open>\<open>NON_WORD_CHARS.sub("", name)\<close> with \<open>NON_WORD_CHARS = [^a-zA-Z0-9]+\<close>: every run of
      characters outside the class is replaced by the empty string\<close>
  "NON_WORD_CHARS_sub name = filter is_alnum name"

text \<open>
  A profile object. \<open>media_type\<close>, \<open>bitrate\<close> and \<open>extension\<close> are the class attributes
  (default \<open>None\<close>) that a subclass overrides; \<open>name\<close> and \<open>identifier'\<close> are set by
  \<open>__init__\<close>. The class defines neither \<open>__eq__\<close> nor \<open>__hash__\<close>, so two profile objects are
  equal only when they are the same object: \<open>oid\<close> is that identity.
\<close>

record converter_info =
  oid :: nat
  name :: string
  identifier' :: string
  media_type :: "string option"
  bitrate :: "nat option"
  extension :: "string option"

definition ConverterInfo_init ::
  "nat \<Rightarrow> string option \<Rightarrow> nat option \<Rightarrow> string option \<Rightarrow> string \<Rightarrow> converter_info" where
  \<comment> \<open>\<open>__init__(self, name)\<close> on a fresh object \<open>i\<close> of a class with attributes \<open>mt\<close>, \<open>br\<close>, \<open>ext\<close>\<close>
  "ConverterInfo_init i mt br ext nm =
     \<lparr>oid = i, name = nm, identifier' = lower (NON_WORD_CHARS_sub nm),
      media_type = mt, bitrate = br, extension = ext\<rparr>"

record video =
  filename :: string

subsection \<open>\<open>ConverterManager\<close>\<close>

type_synonym brand = "string option"

record converter_manager =
  converters :: "string \<rightharpoonup> converter_info"
  brand_rmap :: "converter_info \<rightharpoonup> brand"
  brand_map :: "brand \<rightharpoonup> converter_info list"

definition ConverterManager_init :: converter_manager where
  "ConverterManager_init = \<lparr>converters = Map.empty, brand_rmap = Map.empty, brand_map = Map.empty\<rparr>"

definition add_converter :: "converter_manager \<Rightarrow> converter_info \<Rightarrow> converter_manager" where
  "add_converter self converter =
     self\<lparr>converters := (converters self)(identifier' converter \<mapsto> converter)\<rparr>"

definition brand_to_converters :: "converter_manager \<Rightarrow> brand \<Rightarrow> converter_info list option" where
  "brand_to_converters self b = brand_map self b"

definition converter_to_brand :: "converter_manager \<Rightarrow> converter_info \<Rightarrow> brand" where
  \<comment> \<open>\<open>KeyError\<close> gives \<open>None\<close>, and so does a stored \<open>None\<close>\<close>
  "converter_to_brand self converter =
     (case brand_rmap self converter of None \<Rightarrow> None | Some b \<Rightarrow> b)"

text \<open>
  An entry of \<open>basicconverters.converters\<close> is a profile or a tuple of a brand and its
  profiles (\<open>isinstance(converter, tuple)\<close>). The list itself is another module's: it is
  the argument of \<open>load_simple_converters\<close>.
\<close>

datatype entry = Bare converter_info | Branded brand "converter_info list"

definition setdefault_append ::
  "(brand \<rightharpoonup> converter_info list) \<Rightarrow> brand \<Rightarrow> converter_info \<Rightarrow> (brand \<rightharpoonup> converter_info list)" where
  \<comment> \<open>\<open>brand_map.setdefault(brand, []).append(converter)\<close>\<close>
  "setdefault_append m b c = m(b \<mapsto> (case m b of None \<Rightarrow> [] | Some cs \<Rightarrow> cs) @ [c])"

definition register_branded :: "brand \<Rightarrow> converter_manager \<Rightarrow> converter_info \<Rightarrow> converter_manager" where
  \<comment> \<open>the three statements both loops run for one profile\<close>
  "register_branded b self c =
     add_converter
       (self\<lparr>brand_rmap := (brand_rmap self)(c \<mapsto> b),
             brand_map := setdefault_append (brand_map self) b c\<rparr>) c"

fun load_entry :: "converter_manager \<Rightarrow> entry \<Rightarrow> converter_manager" where
  "load_entry self (Branded b realconverters) = foldl (register_branded b) self realconverters"
| "load_entry self (Bare c) = register_branded None self c"

definition load_simple_converters :: "entry list \<Rightarrow> converter_manager \<Rightarrow> converter_manager" where
  "load_simple_converters basicconverters self = foldl load_entry self basicconverters"

subsection \<open>\<open>ConverterInfo.finalize\<close>\<close>

text \<open>
  \<open>finalize\<close> calls three functions of other modules: \<open>processor.process\<close> of
  \<open>mvc.qtfaststart\<close> (the remux pass, which raises \<open>FastStartException\<close>), \<open>shutil.move\<close> and
  \<open>os.remove\<close> (which raise \<open>EnvironmentError\<close> or its subclasses \<open>IOError\<close> and
  \<open>OSError\<close>, all caught by \<open>except EnvironmentError\<close>). They are arguments of the
  model: each takes the state of the world \<open>'w\<close> and returns the exception it raised, if any,
  and the new world. The result of \<open>finalize\<close> is the exception that leaves it, the calls
  and log records it made, in order, and the world it leaves.
\<close>

type_synonym path = string

datatype fast_start_exception = FastStartException string

datatype environment_error = EnvironmentError string | IOError string | OSError string

record 'w collaborators =
  processor_process :: "path \<Rightarrow> path \<Rightarrow> 'w \<Rightarrow> fast_start_exception option \<times> 'w"
  shutil_move :: "path \<Rightarrow> path \<Rightarrow> 'w \<Rightarrow> environment_error option \<times> 'w"
  os_remove :: "path \<Rightarrow> 'w \<Rightarrow> environment_error option \<times> 'w"

datatype event =
    Call_process path path
  | Call_move path path
  | Call_remove path
  | Log_debug_running_qtfaststart
  | Log_exception_qtfaststart
  | Log_error_cannot_remove path
  | Log_error_in_response environment_error

record 'w outcome =
  raised :: "environment_error option"
  trace :: "event list"
  world :: 'w

definition finalize_commit ::
  "'w collaborators \<Rightarrow> converter_info \<Rightarrow> path \<Rightarrow> path \<Rightarrow> 'w
     \<Rightarrow> environment_error option \<times> bool \<times> event list \<times> 'w" where
  \<comment> \<open>the first \<open>if\<close> of \<open>finalize\<close>; the result is \<open>err\<close>, \<open>needs_remove\<close>, the calls made
      and the world\<close>
  "finalize_commit io self temp_output output w =
     (if media_type self = Some ''format'' \<and> extension self = Some ''mp4'' then
        (case processor_process io temp_output output w of
           (None, w') \<Rightarrow>
             (None, True,
              [Log_debug_running_qtfaststart, Call_process temp_output output], w')
         | (Some fse, w') \<Rightarrow>
             (Some (EnvironmentError ''qtfaststart exception''), True,
              [Log_debug_running_qtfaststart, Call_process temp_output output,
               Log_exception_qtfaststart], w'))
      else
        (case shutil_move io temp_output output w of
           (None, w') \<Rightarrow> (None, False, [Call_move temp_output output], w')
         | (Some e, w') \<Rightarrow> (Some e, True, [Call_move temp_output output], w')))"

definition finalize_cleanup ::
  "'w collaborators \<Rightarrow> path \<Rightarrow> environment_error option \<times> bool \<times> event list \<times> 'w
     \<Rightarrow> 'w outcome" where
  \<comment> \<open>\<open>if needs_remove:\<close> and what follows; an exception object is true, so \<open>if err:\<close> asks
      whether \<open>err\<close> is not \<open>None\<close>\<close>
  "finalize_cleanup io temp_output st =
     (case st of (err, needs_remove, tr, w) \<Rightarrow>
        if needs_remove then
          (case os_remove io temp_output w of
             (None, w') \<Rightarrow>
               \<lparr>raised = None, trace = tr @ [Call_remove temp_output], world = w'\<rparr>
           | (Some e, w') \<Rightarrow>
               (case err of
                  Some original \<Rightarrow>
                    \<lparr>raised = Some original,
                     trace = tr @ [Call_remove temp_output, Log_error_cannot_remove temp_output,
                                   Log_error_in_response original],
                     world = w'\<rparr>
                | None \<Rightarrow>
                    \<lparr>raised = None,
                     trace = tr @ [Call_remove temp_output, Log_error_cannot_remove temp_output],
                     world = w'\<rparr>))
        else \<lparr>raised = None, trace = tr, world = w\<rparr>)"

definition finalize ::
  "'w collaborators \<Rightarrow> converter_info \<Rightarrow> path \<Rightarrow> path \<Rightarrow> 'w \<Rightarrow> 'w outcome" where
  "finalize io self temp_output output w =
     finalize_cleanup io temp_output (finalize_commit io self temp_output output w)"

text \<open>
  A file system to run \<open>finalize\<close> on: the files that exist, with their contents.
  \<open>shutil.move\<close> of a file that does not exist raises \<open>IOError\<close> (from the copy it falls
  back to), \<open>os.remove\<close> of one raises \<open>OSError\<close>; a move of a file onto itself changes
  nothing.
\<close>

type_synonym filesystem = "path \<rightharpoonup> string"

definition ENOENT :: string where
  "ENOENT = ''[Errno 2] No such file or directory''"

definition fs_move :: "path \<Rightarrow> path \<Rightarrow> filesystem \<Rightarrow> environment_error option \<times> filesystem" where
  "fs_move src dst fs =
     (case fs src of
        None \<Rightarrow> (Some (IOError ENOENT), fs)
      | Some content \<Rightarrow> (None, (fs(src := None))(dst \<mapsto> content)))"

definition fs_remove :: "path \<Rightarrow> filesystem \<Rightarrow> environment_error option \<times> filesystem" where
  "fs_remove p fs =
     (case fs p of
        None \<Rightarrow> (Some (OSError ENOENT), fs)
      | Some content \<Rightarrow> (None, fs(p := None)))"

definition remux ::
  "(string \<Rightarrow> bool) \<Rightarrow> path \<Rightarrow> path \<Rightarrow> filesystem \<Rightarrow> fast_start_exception option \<times> filesystem" where
  \<comment> \<open>Modelled from the spec: \<open>processor.process\<close> of \<open>mvc.qtfaststart\<close> is not among the sources.
      "remux(source_path, dest_path) -> success | raises RemuxFailure. Treated as atomic and
      side-effect-free on failure (must not leave dest_path partially written, and must not move
      source_path)." Which contents it accepts is the argument \<open>accepts\<close>; a source that
      does not exist is a failure here.\<close>
  "remux accepts src dst fs =
     (case fs src of
        Some content \<Rightarrow>
          if accepts content then (None, fs(dst \<mapsto> content))
          else (Some (FastStartException ''cannot process''), fs)
      | None \<Rightarrow> (Some (FastStartException ''cannot process''), fs))"

definition fs_io ::
  "(path \<Rightarrow> path \<Rightarrow> filesystem \<Rightarrow> fast_start_exception option \<times> filesystem)
     \<Rightarrow> filesystem collaborators" where
  "fs_io process =
     \<lparr>processor_process = process, shutil_move = fs_move, os_remove = fs_remove\<rparr>"

definition mp4_format :: converter_info where
  \<open>mp4_format = ConverterInfo_init 1 (Some ''format'') None (Some ''mp4'') ''MP4''\<close>

definition ogg_theora :: converter_info where
  \<open>ogg_theora = ConverterInfo_init 2 (Some ''format'') None (Some ''ogv'') ''Ogg Theora''\<close>

subsection \<open>\<open>ConverterInfo.get_output_filename\<close>\<close>

text \<open>
  \<open>os.path.basename\<close> and \<open>os.path.splitext\<close> are those of \<open>posixpath\<close>: the separator is
  \<open>/\<close>, there is no alternative separator, and the extension separator is the dot.
\<close>

definition rfind :: "string \<Rightarrow> char \<Rightarrow> int" where
  \<comment> \<open>\<open>p.rfind(c)\<close>: the last index of \<open>c\<close>, or -1\<close>
  "rfind p c =
     (if c \<in> set p then int (length p) - 1 - int (length (takeWhile (\<lambda>x. x \<noteq> c) (rev p)))
      else - 1)"

definition basename :: "string \<Rightarrow> string" where
  \<comment> \<open>\<open>i = p.rfind('/') + 1; return p[i:]\<close>\<close>
  "basename p = (let i = rfind p (CHR ''/'') + 1 in drop (nat i) p)"

function splitext_loop :: "string \<Rightarrow> nat \<Rightarrow> nat \<Rightarrow> (string \<times> string) option" where
  \<comment> \<open>the \<open>while filenameIndex < dotIndex\<close> of \<open>genericpath._splitext\<close>, which skips the
      leading dots; \<open>None\<close> when the loop ends without returning\<close>
  "splitext_loop p filenameIndex dotIndex =
     (if filenameIndex < dotIndex then
        if p ! filenameIndex \<noteq> CHR ''.'' then Some (take dotIndex p, drop dotIndex p)
        else splitext_loop p (filenameIndex + 1) dotIndex
      else None)"
  by pat_completeness auto
termination
  by (relation "measure (\<lambda>(p, filenameIndex, dotIndex). dotIndex - filenameIndex)") auto

declare splitext_loop.simps [simp del]

definition splitext :: "string \<Rightarrow> string \<times> string" where
  "splitext p =
     (let sepIndex = rfind p (CHR ''/'');
          dotIndex = rfind p (CHR ''.'')
      in if dotIndex > sepIndex then
           (case splitext_loop p (nat (sepIndex + 1)) (nat dotIndex) of
              Some r \<Rightarrow> r
            | None \<Rightarrow> (p, []))
         else (p, []))"

definition get_output_filename :: "converter_info \<Rightarrow> video \<Rightarrow> string" where
  \<comment> \<open>\<open>ext[0]\<close> is read only when \<open>ext\<close> is not empty; an empty \<open>self.extension\<close> is false, as
      \<open>None\<close> is\<close>
  "get_output_filename self video =
     (let base = basename (filename video);
          (name', ext) = splitext base;
          ext = (if ext \<noteq> [] \<and> hd ext = CHR ''.'' then tl ext else ext);
          extension' = (case extension self of
                          None \<Rightarrow> ext
                        | Some e \<Rightarrow> if e \<noteq> [] then e else ext)
      in name' @ ''.'' @ identifier' self @ ''.'' @ extension')"

subsection \<open>Regular expressions\<close>

text \<open>
  The patterns of \<open>FFmpegConverterInfoBase\<close> use literals, the classes \<open>.\<close>, \<open>\d\<close> and
  \<open>\W\<close>, a greedy star of a class, greedy optional groups and numbered groups. \<open>step r\<close>
  lists the ways \<open>r\<close> can match at the front of a string, as the rest of the string and the
  groups captured, in the order a backtracking matcher tries them (longest repetition first,
  the optional part before its absence); \<open>pattern.match(line)\<close> is the first of them.
\<close>

datatype cls = Any | Digit | NonWord

fun cls_match :: "cls \<Rightarrow> char \<Rightarrow> bool" where
  "cls_match Any c = (c \<noteq> CHR 0x0A)"
| "cls_match Digit c = is_digit c"
| "cls_match NonWord c = (\<not> (is_alnum c \<or> c = CHR ''_''))"

datatype regex =
    Eps
  | Lit string
  | Cls cls
  | Star cls
  | Opt regex
  | Group nat regex
  | Seq regex regex

type_synonym groups = "nat \<rightharpoonup> string"

primrec step :: "regex \<Rightarrow> string \<times> groups \<Rightarrow> (string \<times> groups) list" where
  "step Eps st = [st]"
| "step (Lit p) st = (if startswith (fst st) p then [(drop (length p) (fst st), snd st)] else [])"
| "step (Cls c) st =
     (case fst st of
        [] \<Rightarrow> []
      | x # xs \<Rightarrow> if cls_match c x then [(xs, snd st)] else [])"
| "step (Star c) st =
     map (\<lambda>n. (drop n (fst st), snd st)) (rev [0 ..< Suc (length (takeWhile (cls_match c) (fst st)))])"
| "step (Opt r) st = step r st @ [st]"
| "step (Group i r) st =
     map (\<lambda>st'. (fst st', (snd st')(i \<mapsto> take (length (fst st) - length (fst st')) (fst st))))
       (step r st)"
| "step (Seq a b) st = concat (map (step b) (step a st))"

definition re_match :: "regex \<Rightarrow> string \<Rightarrow> groups option" where
  "re_match r line = (case step r (line, Map.empty) of [] \<Rightarrow> None | st # _ \<Rightarrow> Some (snd st))"

definition cat :: "regex list \<Rightarrow> regex" where
  "cat rs = foldr Seq rs Eps"




subsection \<open>\<open>FFmpegConverterInfoBase\<close>\<close>

definition DURATION_RE :: regex where
  \<comment> \<open>\<open>\W*Duration: (\d\d):(\d\d):(\d\d)\.(\d\d)(, start:.*)?(, bitrate:.*)?\<close>\<close>
  "DURATION_RE = cat
     [Star NonWord, Lit ''Duration: '',
      Group 1 (Seq (Cls Digit) (Cls Digit)), Lit '':'',
      Group 2 (Seq (Cls Digit) (Cls Digit)), Lit '':'',
      Group 3 (Seq (Cls Digit) (Cls Digit)), Lit ''.'',
      Group 4 (Seq (Cls Digit) (Cls Digit)),
      Opt (Group 5 (Seq (Lit '', start:'') (Star Any))),
      Opt (Group 6 (Seq (Lit '', bitrate:'') (Star Any)))]"

definition PROGRESS_RE :: regex where
  \<comment> \<open>\<open>(?:frame=.* fps=.* q=.* )?size=.* time=(.*) bitrate=(.*)\<close>\<close>
  "PROGRESS_RE = cat
     [Opt (cat [Lit ''frame='', Star Any, Lit '' fps='', Star Any, Lit '' q='', Star Any, Lit '' '']),
      Lit ''size='', Star Any, Lit '' time='', Group 1 (Star Any),
      Lit '' bitrate='', Group 2 (Star Any)]"

definition LAST_PROGRESS_RE :: regex where
  \<comment> \<open>\<open>frame=.* fps=.* q=.* Lsize=.* time=(.*) bitrate=(.*)\<close>\<close>
  "LAST_PROGRESS_RE = cat
     [Lit ''frame='', Star Any, Lit '' fps='', Star Any, Lit '' q='', Star Any,
      Lit '' Lsize='', Star Any, Lit '' time='', Group 1 (Star Any),
      Lit '' bitrate='', Group 2 (Star Any)]"

definition check_for_errors :: "string \<Rightarrow> string option" where
  \<comment> \<open>\<open>_check_for_errors\<close>; falling off the end returns \<open>None\<close>\<close>
  "check_for_errors line =
     (if startswith line ''Unknown'' then Some line
      else if startswith line ''Error'' then
        (if \<not> startswith line ''Error while decoding stream'' then Some line else None)
      else None)"

definition hms_to_seconds :: "rat \<Rightarrow> rat \<Rightarrow> rat \<Rightarrow> rat" where
  \<comment> \<open>Modelled from the spec: \<open>hms_to_seconds\<close> of \<open>mvc.utils\<close> is not among the sources.
      "computed as HH*3600 + MM*60 + SS + 0.01*CC", "converted via the same HMS formula".
      Python's floats are the rationals here: no rounding.\<close>
  "hms_to_seconds hours minutes seconds = hours * 3600 + minutes * 60 + seconds"

definition digit_val :: "char \<Rightarrow> nat" where
  "digit_val c = of_char c - 48"

definition py_int :: "string \<Rightarrow> nat option" where
  \<comment> \<open>\<open>int(m)\<close> on the text of a group \<open>\d\d\<close>; \<open>None\<close> stands for the exception on other text\<close>
  "py_int m =
     (if m \<noteq> [] \<and> list_all is_digit m then Some (foldl (\<lambda>n c. 10 * n + digit_val c) 0 m)
      else None)"

fun split_on :: "char \<Rightarrow> string \<Rightarrow> string list" where
  \<comment> \<open>\<open>t.split(c)\<close>\<close>
  "split_on c [] = [[]]"
| "split_on c (x # xs) =
     (if x = c then [] # split_on c xs
      else (case split_on c xs of
              [] \<Rightarrow> [[x]]
            | part # parts \<Rightarrow> (x # part) # parts))"

datatype py_error = ValueError | TypeError

datatype status =
    Finished_error string
  | Duration rat
  | Progress rat
  | Finished

text \<open>
  \<open>process_status_line\<close> returns a dictionary or \<open>None\<close>; the four dictionaries it builds
  are the constructors of \<open>status\<close>. The argument \<open>video\<close> is not used. \<open>float\<close> is an
  argument (\<open>None\<close> for the text it rejects). \<open>if error:\<close> holds for a string that is
  not empty.
\<close>

definition process_status_line ::
  "(string \<Rightarrow> rat option) \<Rightarrow> string \<Rightarrow> py_error + status option" where
  "process_status_line py_float line =
     (let error = check_for_errors line in
      if error \<noteq> None \<and> error \<noteq> Some [] then Inr (Some (Finished_error (the error)))
      else
     (case re_match DURATION_RE line of
        Some m \<Rightarrow>
          (case map (\<lambda>i. Option.bind (m i) py_int) [1, 2, 3, 4] of
             [Some hours, Some minutes, Some seconds, Some centi] \<Rightarrow>
               Inr (Some (Duration (hms_to_seconds (of_nat hours) (of_nat minutes)
                                      (of_nat seconds + (1 / 100) * of_nat centi))))
           | _ \<Rightarrow> Inl ValueError)
      | None \<Rightarrow>
     (case re_match PROGRESS_RE line of
        Some m \<Rightarrow>
          (case m 1 of
             None \<Rightarrow> Inl TypeError
           | Some t \<Rightarrow>
               if CHR '':'' \<in> set t then
                 (case map py_float (take 3 (split_on (CHR '':'') t)) of
                    [Some hours, Some minutes, Some seconds] \<Rightarrow>
                      Inr (Some (Progress (hms_to_seconds hours minutes seconds)))
                  | _ \<Rightarrow> Inl ValueError)
               else
                 (case py_float t of
                    Some seconds \<Rightarrow> Inr (Some (Progress seconds))
                  | None \<Rightarrow> Inl ValueError))
      | None \<Rightarrow>
     (case re_match LAST_PROGRESS_RE line of
        Some m \<Rightarrow> Inr (Some Finished)
      | None \<Rightarrow> Inr None))))"

section \<open>The registry\<close>

lemma add_converter_frame:
  "brand_map (add_converter m c) = brand_map m" "brand_rmap (add_converter m c) = brand_rmap m"
  by (simp_all add: add_converter_def)

lemma foldl_add_converter_frame:
  "brand_map (foldl add_converter m cs) = brand_map m \<and>
   brand_rmap (foldl add_converter m cs) = brand_rmap m"
  by (induction cs arbitrary: m) (simp_all add: add_converter_frame)

text \<open>
  C9. Two profiles whose names normalize to the same identifier (the name with every
  character outside a-z, A-Z, 0-9 removed, then lowercased): after adding both, the
  identifier maps to the one added later, the registry is the one that adding only the later
  profile gives (nothing remains of the first), and the identifier is one key of the map.
\<close>

theorem add_converter_later_wins:
  assumes "lower (NON_WORD_CHARS_sub n1) = lower (NON_WORD_CHARS_sub n2)"
      and "p1 = ConverterInfo_init i1 mt1 br1 ext1 n1"
      and "p2 = ConverterInfo_init i2 mt2 br2 ext2 n2"
  shows "identifier' p1 = lower (NON_WORD_CHARS_sub n1)
       \<and> identifier' p1 = identifier' p2
       \<and> converters (add_converter (add_converter m p1) p2) (identifier' p1) = Some p2
       \<and> add_converter (add_converter m p1) p2 = add_converter m p2
       \<and> dom (converters (add_converter (add_converter m p1) p2))
           = insert (identifier' p2) (dom (converters m))"
  using assms by (auto simp: add_converter_def ConverterInfo_init_def)

theorem add_converter_later_wins_witness:
  "lower (NON_WORD_CHARS_sub ''MP-4 (Video)'') = lower (NON_WORD_CHARS_sub ''mp4 video'')
   \<and> converters (add_converter (add_converter ConverterManager_init
         (ConverterInfo_init 1 None None None ''MP-4 (Video)''))
         (ConverterInfo_init 2 None None (Some ''mp4'') ''mp4 video''))
         (identifier' (ConverterInfo_init 1 None None None ''MP-4 (Video)''))
       = Some (ConverterInfo_init 2 None None (Some ''mp4'') ''mp4 video'')"
proof -
  have h: "lower (NON_WORD_CHARS_sub ''MP-4 (Video)'') = lower (NON_WORD_CHARS_sub ''mp4 video'')"
    by code_simp
  show ?thesis
    using add_converter_later_wins [OF h refl refl, of 1 None None None 2 None None "Some ''mp4''"
        ConverterManager_init] h
    by blast
qed

text \<open>
  C10. \<open>add_converter\<close> changes the identifier map only: both brand maps are as before, and
  so is every answer of \<open>converter_to_brand\<close> and \<open>brand_to_converters\<close>. A profile that no
  brand map mentions is therefore still in no brand group after it is added, and
  \<open>converter_to_brand\<close> gives \<open>None\<close> for it; in a registry filled by \<open>add_converter\<close> alone
  that is every profile. A profile loaded as a bare (unbranded) entry gets \<open>None\<close> too.
\<close>

theorem add_converter_leaves_brands:
  "brand_map (add_converter m c) = brand_map m
   \<and> brand_rmap (add_converter m c) = brand_rmap m
   \<and> (\<forall>c'. converter_to_brand (add_converter m c) c' = converter_to_brand m c')
   \<and> (\<forall>b. brand_to_converters (add_converter m c) b = brand_to_converters m b)
   \<and> {b. \<exists>cs. brand_map (add_converter m c) b = Some cs \<and> c \<in> set cs}
       = {b. \<exists>cs. brand_map m b = Some cs \<and> c \<in> set cs}
   \<and> (brand_rmap m c = None \<longrightarrow> converter_to_brand (add_converter m c) c = None)
   \<and> brand_map (foldl add_converter ConverterManager_init cs) = Map.empty
   \<and> converter_to_brand (foldl add_converter ConverterManager_init cs) c' = None
   \<and> converter_to_brand (load_simple_converters [Bare c] m) c = None"
proof -
  have "brand_rmap (foldl add_converter ConverterManager_init cs) = Map.empty"
       "brand_map (foldl add_converter ConverterManager_init cs) = Map.empty"
    using foldl_add_converter_frame [of ConverterManager_init cs]
    by (simp_all add: ConverterManager_init_def)
  then show ?thesis
    by (simp add: add_converter_frame converter_to_brand_def brand_to_converters_def
        load_simple_converters_def register_branded_def)
qed

theorem add_converter_leaves_brands_witness:
  "brand_rmap ConverterManager_init (ConverterInfo_init 1 None None None ''Ogg Theora'') = None
   \<and> converter_to_brand (add_converter ConverterManager_init
        (ConverterInfo_init 1 None None None ''Ogg Theora''))
        (ConverterInfo_init 1 None None None ''Ogg Theora'') = None"
  using add_converter_leaves_brands [of ConverterManager_init
      "ConverterInfo_init 1 None None None ''Ogg Theora''" "[]"]
  by (simp add: ConverterManager_init_def)

section \<open>The output file name\<close>

lemma rfind_in:
  assumes "c \<in> set p"
  shows "0 \<le> rfind p c" "nat (rfind p c) < length p" "p ! nat (rfind p c) = c"
    "c \<notin> set (drop (Suc (nat (rfind p c))) p)"
proof -
  define k where "k = length (takeWhile (\<lambda>x. x \<noteq> c) (rev p))"
  have c': "c \<in> set (rev p)" using assms by simp
  have "k \<noteq> length (rev p)"
  proof
    assume "k = length (rev p)"
    then have "takeWhile (\<lambda>x. x \<noteq> c) (rev p) = rev p"
      using takeWhile_eq_take [of "\<lambda>x. x \<noteq> c" "rev p"] by (simp add: k_def)
    then show False using c' by (auto simp: takeWhile_eq_all_conv)
  qed
  moreover have "k \<le> length (rev p)" unfolding k_def by (rule length_takeWhile_le)
  ultimately have k: "k < length p" by simp
  have r: "rfind p c = int (length p) - 1 - int k" using assms by (simp add: rfind_def k_def)
  show "0 \<le> rfind p c" using k r by simp
  have n: "nat (rfind p c) = length p - 1 - k" using k r by simp
  show "nat (rfind p c) < length p" using k n by simp
  have "rev p ! k = c"
    using k nth_length_takeWhile [of "\<lambda>x. x \<noteq> c" "rev p"] by (simp add: k_def)
  then show "p ! nat (rfind p c) = c"
    using k n by (simp add: rev_nth)
  have "Suc (nat (rfind p c)) = length p - k" using k n by simp
  then have "drop (Suc (nat (rfind p c))) p = rev (take k (rev p))"
    by (simp add: take_rev)
  also have "take k (rev p) = takeWhile (\<lambda>x. x \<noteq> c) (rev p)"
    unfolding k_def by (rule takeWhile_eq_take [symmetric])
  finally have "set (drop (Suc (nat (rfind p c))) p) = set (takeWhile (\<lambda>x. x \<noteq> c) (rev p))"
    by simp
  then show "c \<notin> set (drop (Suc (nat (rfind p c))) p)"
    using set_takeWhileD [of c "\<lambda>x. x \<noteq> c" "rev p"] by blast
qed


lemma rfind_ge: "- 1 \<le> rfind p c"
  using rfind_in(1) [of c p] by (cases "c \<in> set p") (simp_all add: rfind_def)

lemma splitext_loop_Some:
  "splitext_loop p i d = Some r \<Longrightarrow> r = (take d p, drop d p)"
proof (induction p i d rule: splitext_loop.induct)
  case (1 p i d)
  from "1.prems" show ?case
    by (subst (asm) splitext_loop.simps) (auto split: if_splits dest: "1.IH")
qed

lemma splitext_parts:
  "fst (splitext p) @ snd (splitext p) = p"
  "snd (splitext p) = [] \<or> (hd (snd (splitext p)) = CHR ''.'' \<and> CHR ''.'' \<notin> set (tl (snd (splitext p))))"
proof -
  show "fst (splitext p) @ snd (splitext p) = p"
    by (auto simp: splitext_def Let_def split: option.splits dest: splitext_loop_Some)
  show "snd (splitext p) = [] \<or> (hd (snd (splitext p)) = CHR ''.'' \<and> CHR ''.'' \<notin> set (tl (snd (splitext p))))"
  proof (cases "CHR ''.'' \<in> set p")
    case False
    then have "rfind p CHR ''.'' = - 1" by (simp add: rfind_def)
    then have "splitext p = (p, [])"
      using rfind_ge [of p "CHR ''/''"] by (simp add: splitext_def)
    then show ?thesis by simp
  next
    case True
    note r = rfind_in [OF True]
    have "drop (nat (rfind p CHR ''.'')) p = CHR ''.'' # drop (Suc (nat (rfind p CHR ''.''))) p"
      using r(2,3) Cons_nth_drop_Suc [of "nat (rfind p CHR ''.'')" p] by simp
    then show ?thesis using r(4)
      by (auto simp: splitext_def Let_def split: option.splits dest!: splitext_loop_Some)
  qed
qed

lemma basename_suffix: "\<exists>d. p = d @ basename p \<and> CHR ''/'' \<notin> set (basename p)"
proof (cases "CHR ''/'' \<in> set p")
  case False
  then show ?thesis by (simp add: basename_def rfind_def)
next
  case True
  note r = rfind_in [OF True]
  have "nat (rfind p CHR ''/'' + 1) = Suc (nat (rfind p CHR ''/''))" using r(1) by simp
  then have "basename p = drop (Suc (nat (rfind p CHR ''/''))) p" by (simp add: basename_def)
  then show ?thesis using r(4) append_take_drop_id [of "Suc (nat (rfind p CHR ''/''))" p]
    by (intro exI [of _ "take (Suc (nat (rfind p CHR ''/''))) p"]) simp
qed

text \<open>
  C8, as the code has it. The output name is the stem of the source's base name, a dot, the
  profile's identifier, a dot, and an extension: the profile's \<open>extension\<close> when that is a
  string that is not empty, and otherwise (\<open>None\<close> or the empty string) the source's own
  extension without its leading dot. Stem and extension are the two parts of the base name,
  and the extension is empty or a dot followed by text with no dot in it.
\<close>

theorem get_output_filename_shape:
  "get_output_filename self video =
     fst (splitext (basename (filename video))) @ ''.'' @ identifier' self @ ''.'' @
       (case extension self of
          None \<Rightarrow> drop 1 (snd (splitext (basename (filename video))))
        | Some e \<Rightarrow> if e \<noteq> [] then e else drop 1 (snd (splitext (basename (filename video)))))
   \<and> fst (splitext (basename (filename video))) @ snd (splitext (basename (filename video)))
       = basename (filename video)
   \<and> (snd (splitext (basename (filename video))) = []
      \<or> hd (snd (splitext (basename (filename video)))) = CHR ''.''
        \<and> CHR ''.'' \<notin> set (drop 1 (snd (splitext (basename (filename video))))))"
proof -
  obtain n e where ne: "splitext (basename (filename video)) = (n, e)"
    by (cases "splitext (basename (filename video))")
  have e: "e = [] \<or> (hd e = CHR ''.'' \<and> CHR ''.'' \<notin> set (tl e))"
    using splitext_parts(2) [of "basename (filename video)"] ne by simp
  have g: "get_output_filename self video =
     n @ ''.'' @ identifier' self @ ''.'' @
       (case extension self of None \<Rightarrow> drop 1 e | Some x \<Rightarrow> if x \<noteq> [] then x else drop 1 e)"
  proof (cases e)
    case Nil
    then show ?thesis
      by (simp add: get_output_filename_def ne split: option.split)
  next
    case (Cons x xs)
    then have "x = CHR ''.''" using e by simp
    then show ?thesis using Cons
      by (simp add: get_output_filename_def ne split: option.split)
  qed
  have t: "tl e = drop 1 e" by (simp add: drop_Suc)
  have p: "n @ e = basename (filename video)"
    using splitext_parts(1) [of "basename (filename video)"] ne by simp
  have e': "e = [] \<or> hd e = CHR ''.'' \<and> CHR ''.'' \<notin> set (drop 1 e)"
    using e unfolding t .
  show ?thesis
    unfolding ne fst_conv snd_conv
    apply (intro conjI)
      apply (rule g)
     apply (rule p)
    apply (rule e')
    done
qed

text \<open>
  The claim as written fails for a profile whose \<open>extension\<close> is set to the empty string:
  the output takes the extension of the source.
\<close>

theorem get_output_filename_empty_extension:
  "extension (ConverterInfo_init 1 None None (Some []) ''Same Format'') = Some []
   \<and> get_output_filename (ConverterInfo_init 1 None None (Some []) ''Same Format'')
        \<lparr>filename = ''/home/u/movie.avi''\<rparr> = ''movie.sameformat.avi''
   \<and> get_output_filename (ConverterInfo_init 1 None None (Some []) ''Same Format'')
        \<lparr>filename = ''/home/u/movie.avi''\<rparr>
       \<noteq> ''movie'' @ ''.'' @ ''sameformat'' @ ''.'' @ []"
  by code_simp

section \<open>Matching status lines\<close>


























text \<open>
  C5. The error check comes first and decides alone: a line that starts with 'Unknown', or
  with 'Error' but not with 'Error while decoding stream', gives the finished event with
  the line as its error, whatever the patterns would say. 'Error while decoding stream #0:0'
  gives no event at all, and 'Error opening input file' gives the error event.
\<close>

theorem process_status_line_error:
  "(startswith line ''Unknown''
      \<or> startswith line ''Error'' \<and> \<not> startswith line ''Error while decoding stream''
    \<longrightarrow> process_status_line py_float line = Inr (Some (Finished_error line)))
   \<and> process_status_line py_float ''Error while decoding stream #0:0'' = Inr None
   \<and> process_status_line py_float ''Error opening input file''
       = Inr (Some (Finished_error ''Error opening input file''))"
proof (intro conjI impI)
  assume a: "startswith line ''Unknown''
      \<or> startswith line ''Error'' \<and> \<not> startswith line ''Error while decoding stream''"
  then have "line \<noteq> []" by (auto simp: startswith_def)
  moreover have "check_for_errors line = Some line" using a by (auto simp: check_for_errors_def)
  ultimately show "process_status_line py_float line = Inr (Some (Finished_error line))"
    by (simp add: process_status_line_def)
next
  show "process_status_line py_float ''Error while decoding stream #0:0'' = Inr None"
    by code_simp
next
  show "process_status_line py_float ''Error opening input file''
       = Inr (Some (Finished_error ''Error opening input file''))"
    by code_simp
qed

theorem process_status_line_error_witness:
  "startswith ''Unknown encoder libx264'' ''Unknown''
   \<and> process_status_line (\<lambda>t. None) ''Unknown encoder libx264''
       = Inr (Some (Finished_error ''Unknown encoder libx264''))"
proof -
  have h: "startswith ''Unknown encoder libx264'' ''Unknown''" by code_simp
  show ?thesis
    using process_status_line_error [of "''Unknown encoder libx264''" "\<lambda>t. None"] h by blast
qed







section \<open>Committing the output: \<open>finalize\<close>\<close>

lemma finalize_raises_only_pending:
  "finalize_commit io self t out w = (err, nr, tr, w1) \<Longrightarrow>
   raised (finalize io self t out w) = Some e \<Longrightarrow> err = Some e \<and> nr \<and> fst (os_remove io t w1) \<noteq> None"
  by (auto simp: finalize_def finalize_cleanup_def split: if_splits prod.splits option.splits)

lemma finalize_swallows_when_removed:
  "finalize_commit io self t out w = (err, nr, tr, w1) \<Longrightarrow> fst (os_remove io t w1) = None \<Longrightarrow>
   raised (finalize io self t out w) = None"
  by (auto simp: finalize_def finalize_cleanup_def split: if_splits prod.splits option.splits)

text \<open>
  C1, as the code has it. When the commit operation succeeds (the remux pass for a profile
  with \<open>media_type\<close> 'format' and \<open>extension\<close> 'mp4', the move for any other), \<open>finalize\<close> raises
  nothing. It removes \<open>temp_output\<close> exactly when the commit was the remux pass, which leaves
  the temporary file in place; after a successful move there is no removal.
\<close>

theorem finalize_success:
  assumes "if media_type self = Some ''format'' \<and> extension self = Some ''mp4''
           then fst (processor_process io temp_output output w) = None
           else fst (shutil_move io temp_output output w) = None"
  shows "raised (finalize io self temp_output output w) = None
       \<and> (Call_remove temp_output \<in> set (trace (finalize io self temp_output output w))
            \<longleftrightarrow> media_type self = Some ''format'' \<and> extension self = Some ''mp4'')"
  using assms
  by (auto simp: finalize_def finalize_commit_def finalize_cleanup_def
      split: if_splits prod.splits option.splits)

theorem finalize_success_witness:
  "fst (shutil_move (fs_io (remux (\<lambda>c. True))) ''/tmp/a.tmp'' ''/out/a.ogv''
         [''/tmp/a.tmp'' \<mapsto> ''OggS'']) = None
   \<and> raised (finalize (fs_io (remux (\<lambda>c. True))) ogg_theora ''/tmp/a.tmp'' ''/out/a.ogv''
         [''/tmp/a.tmp'' \<mapsto> ''OggS'']) = None
   \<and> Call_remove ''/tmp/a.tmp'' \<notin> set (trace (finalize (fs_io (remux (\<lambda>c. True))) ogg_theora
         ''/tmp/a.tmp'' ''/out/a.ogv'' [''/tmp/a.tmp'' \<mapsto> ''OggS'']))"
proof -
  have h: "fst (shutil_move (fs_io (remux (\<lambda>c. True))) ''/tmp/a.tmp'' ''/out/a.ogv''
         [''/tmp/a.tmp'' \<mapsto> ''OggS'']) = None"
    by (simp add: fs_io_def fs_move_def)
  have e: "extension ogg_theora \<noteq> Some ''mp4''"
    by (simp add: ogg_theora_def ConverterInfo_init_def)
  show ?thesis
    using finalize_success [of ogg_theora "fs_io (remux (\<lambda>c. True))" "''/tmp/a.tmp''"
        "''/out/a.ogv''" "[''/tmp/a.tmp'' \<mapsto> ''OggS'']"] h e
    by simp
qed

text \<open>
  The claim as written fails for the remux pass: it succeeds, and \<open>finalize\<close> then removes the
  temporary file.
\<close>

theorem finalize_success_removes_temp:
  "fst (processor_process (fs_io (remux (\<lambda>c. True))) ''/tmp/a.tmp'' ''/out/a.mp4''
         [''/tmp/a.tmp'' \<mapsto> ''ftypmoov'']) = None
   \<and> raised (finalize (fs_io (remux (\<lambda>c. True))) mp4_format ''/tmp/a.tmp'' ''/out/a.mp4''
         [''/tmp/a.tmp'' \<mapsto> ''ftypmoov'']) = None
   \<and> trace (finalize (fs_io (remux (\<lambda>c. True))) mp4_format ''/tmp/a.tmp'' ''/out/a.mp4''
         [''/tmp/a.tmp'' \<mapsto> ''ftypmoov''])
       = [Log_debug_running_qtfaststart, Call_process ''/tmp/a.tmp'' ''/out/a.mp4'',
          Call_remove ''/tmp/a.tmp'']
   \<and> world (finalize (fs_io (remux (\<lambda>c. True))) mp4_format ''/tmp/a.tmp'' ''/out/a.mp4''
         [''/tmp/a.tmp'' \<mapsto> ''ftypmoov'']) ''/tmp/a.tmp'' = None"
  by (simp add: finalize_def finalize_commit_def finalize_cleanup_def fs_io_def remux_def
      fs_remove_def mp4_format_def ConverterInfo_init_def)

text \<open>
  C2, at an input where the code does not do what the claim says. The remux pass raises
  (the temporary file is not one it accepts), the removal of the temporary file succeeds, and
  \<open>finalize\<close> returns without raising: \<open>raise err\<close> stands inside the handler of the removal,
  so the pending error is dropped whenever the removal works. Neither file exists afterwards.
\<close>

theorem finalize_drops_commit_error:
  "fst (processor_process (fs_io (remux (\<lambda>c. False))) ''/tmp/a.tmp'' ''/out/a.mp4''
         [''/tmp/a.tmp'' \<mapsto> ''garbage''])
     = Some (FastStartException ''cannot process'')
   \<and> finalize (fs_io (remux (\<lambda>c. False))) mp4_format ''/tmp/a.tmp'' ''/out/a.mp4''
         [''/tmp/a.tmp'' \<mapsto> ''garbage'']
     = \<lparr>raised = None,
        trace = [Log_debug_running_qtfaststart, Call_process ''/tmp/a.tmp'' ''/out/a.mp4'',
                 Log_exception_qtfaststart, Call_remove ''/tmp/a.tmp''],
        world = Map.empty\<rparr>"
  by (simp add: finalize_def finalize_commit_def finalize_cleanup_def fs_io_def remux_def
      fs_remove_def mp4_format_def ConverterInfo_init_def)






end
